theory Spec2Isabelle
  imports Complex_Main "HOL-Library.Sublist" "HOL-Library.AList" "HOL-Library.Multiset"
    "HOL-Library.Log_Nat"
begin

section \<open>Resume screening and scoring pipeline\<close>

text \<open>
  A shallow embedding of the screening pipeline of the applicant-tracking backend:
  the fuzzy skill matcher, the citation verifier and the deterministic scorer of
  \<^verbatim>\<open>services/ai_engine.py\<close>, the knockout rules of \<^verbatim>\<open>main.py\<close> and
  \<^verbatim>\<open>routers/applicants.py\<close>, the per-resume task and the batch aggregation of
  \<^verbatim>\<open>services/tasks.py\<close>, and the failure handling of the fact extraction.

  Conventions of the model.
  \<^item> The value of a Python \<^verbatim>\<open>float\<close> is a rational number (\<^typ>\<open>rat\<close>). The scorer is
    given twice: \<^verbatim>\<open>calculate_deterministic_score\<close> with arithmetic that has no rounding
    error, and its component sum over a parameter for the float operations as the runtime
    rounds them, with IEEE 754 binary64 as an instance. The built-in \<^verbatim>\<open>round\<close> is
    modelled with its tie rule (ties go to the even neighbour).
  \<^item> A Python \<^verbatim>\<open>str\<close> is a \<^typ>\<open>string\<close> of ASCII characters; \<^verbatim>\<open>lower()\<close> maps
    \<^verbatim>\<open>A..Z\<close> to \<^verbatim>\<open>a..z\<close> and \<^verbatim>\<open>split()\<close> cuts at the ASCII white space characters.
  \<^item> A Python \<^verbatim>\<open>dict\<close> is an association list in insertion order.
  \<^item> \<^verbatim>\<open>a in b\<close> on strings is \<^const>\<open>sublist\<close> (a contiguous run of \<^verbatim>\<open>b\<close>).
\<close>

subsection \<open>Strings\<close>

definition lower_char :: "char \<Rightarrow> char" where
  "lower_char c =
     (let n = (of_char c :: nat) in if 65 \<le> n \<and> n \<le> 90 then char_of (n + 32) else c)"

definition lower :: "string \<Rightarrow> string" where
  "lower s = map lower_char s"

text \<open>\<^verbatim>\<open>str.isspace\<close> on ASCII: tab, line feed, vertical tab, form feed, carriage
  return, the four separators \<^verbatim>\<open>0x1c..0x1f\<close> and the blank.\<close>

definition isspace :: "char \<Rightarrow> bool" where
  "isspace c = (let n = (of_char c :: nat) in (9 \<le> n \<and> n \<le> 13) \<or> (28 \<le> n \<and> n \<le> 32))"

text \<open>\<^verbatim>\<open>s.split()\<close>: the maximal runs of characters that are not white space.
  The first argument is the word read so far.\<close>

fun split_from :: "string \<Rightarrow> string \<Rightarrow> string list" where
  "split_from w [] = (if w = [] then [] else [w])"
| "split_from w (c # cs) =
     (if isspace c then (if w = [] then split_from [] cs else w # split_from [] cs)
      else split_from (w @ [c]) cs)"

definition split_whitespace :: "string \<Rightarrow> string list" where
  "split_whitespace s = split_from [] s"

fun join :: "string \<Rightarrow> string list \<Rightarrow> string" where
  "join sep [] = []"
| "join sep [w] = w"
| "join sep (w # v # ws) = w @ sep @ join sep (v # ws)"

text \<open>\<^verbatim>\<open>" ".join(text.split()).lower()\<close>, the normal form the verifier compares.\<close>

definition normalize_text :: "string \<Rightarrow> string" where
  "normalize_text s = lower (join '' '' (split_whitespace s))"

subsection \<open>Numbers\<close>

text \<open>Python 3 \<^verbatim>\<open>round(x)\<close>: the nearest integer, a tie going to the even one.\<close>

definition py_round :: "rat \<Rightarrow> int" where
  "py_round x =
     (let f = \<lfloor>x\<rfloor>; d = x - of_int f in
      if d < 1 / 2 then f
      else if 1 / 2 < d then f + 1
      else if even f then f else f + 1)"

text \<open>\<^verbatim>\<open>round(x, 1)\<close>: the same rule at one decimal.\<close>

definition py_round1 :: "rat \<Rightarrow> rat" where
  "py_round1 x = of_int (py_round (x * 10)) / 10"

subsection \<open>Data model\<close>

type_synonym skills = "(string \<times> rat) list"

record requirement_match =
  requirement :: string
  is_met :: bool
  citation_quote :: "string option"

record candidate =
  name :: string
  email :: string
  phone :: string
  total_years_experience :: rat
  recent_job_titles :: "string list"
  skills_with_years :: skills
  metrics_bullet_count :: int
  jd_requirement_matches :: "requirement_match list"

record score_breakdown =
  skill_depth :: rat
  jd_requirements :: rat
  experience :: rat
  impact :: rat

record scoring_result =
  final_score :: int
  status :: string
  matched_skills_count :: nat
  matched_skills :: "string list"
  verified_requirements :: nat
  total_requirements :: nat
  hallucination_count :: nat
  breakdown :: score_breakdown

subsection \<open>Fuzzy skill matcher\<close>

text \<open>\<^verbatim>\<open>{k.lower(): v for k, v in skills_with_years.items()}\<close>: a later entry with the
  same lower-cased key overwrites the value and keeps the place of the first.\<close>

definition lower_keys :: "skills \<Rightarrow> skills" where
  "lower_keys sk = foldl (\<lambda>d (k, v). AList.update (lower k) v d) [] sk"

text \<open>\<^verbatim>\<open>_fuzzy_match_skill\<close>: the exact key first, then the first key in iteration
  order that contains the requirement or is contained in it.\<close>

definition fuzzy_match_skill :: "string \<Rightarrow> skills \<Rightarrow> string option \<times> rat" where
  "fuzzy_match_skill required candidate_skills_lower =
     (let req = lower required in
      case map_of candidate_skills_lower req of
        Some yrs \<Rightarrow> (Some req, yrs)
      | None \<Rightarrow>
          (case find (\<lambda>(key, yrs). sublist req key \<or> sublist key req) candidate_skills_lower of
             Some (key, yrs) \<Rightarrow> (Some key, yrs)
           | None \<Rightarrow> (None, 0)))"

subsection \<open>Deterministic scorer\<close>

text \<open>The loop over the required skills: one depth per required skill, and the list of
  the required skills that found a match.\<close>

fun skill_depth_loop :: "string list \<Rightarrow> skills \<Rightarrow> rat \<Rightarrow> rat list \<times> string list" where
  "skill_depth_loop [] csl effective_min = ([], [])"
| "skill_depth_loop (req_skill # rest) csl effective_min =
     (let (parts, matched) = skill_depth_loop rest csl effective_min in
      case fuzzy_match_skill req_skill csl of
        (Some matched_key, candidate_yrs) \<Rightarrow>
          (min 1 (candidate_yrs / effective_min) # parts, req_skill # matched)
      | (None, candidate_yrs) \<Rightarrow> (0 # parts, matched))"

text \<open>Python truthiness of \<^verbatim>\<open>citation_quote\<close>: neither \<^verbatim>\<open>None\<close> nor the empty string.\<close>

definition truthy :: "string option \<Rightarrow> bool" where
  "truthy q = (case q of None \<Rightarrow> False | Some s \<Rightarrow> s \<noteq> [])"

text \<open>One pass of the verification loop over a match: the state is the pair
  (verified requirements, hallucination count).\<close>

definition verify_step :: "string \<Rightarrow> requirement_match \<Rightarrow> nat \<times> nat \<Rightarrow> nat \<times> nat" where
  "verify_step normalized_resume m vh =
     (case vh of (v, h) \<Rightarrow>
        if is_met m \<and> truthy (citation_quote m) then
          (if sublist (normalize_text (the (citation_quote m))) normalized_resume
           then (v + 1, h) else (v, h + 1))
        else if is_met m \<and> \<not> truthy (citation_quote m) then (v, h + 1)
        else (v, h))"

fun verify_loop :: "string \<Rightarrow> requirement_match list \<Rightarrow> nat \<times> nat \<Rightarrow> nat \<times> nat" where
  "verify_loop normalized_resume [] vh = vh"
| "verify_loop normalized_resume (m # ms) vh =
     verify_loop normalized_resume ms (verify_step normalized_resume m vh)"

text \<open>The verifier as the scorer runs it: nothing is counted when there is no match
  or the resume text is empty.\<close>

definition verify_citations :: "requirement_match list \<Rightarrow> string \<Rightarrow> nat \<times> nat" where
  "verify_citations ms raw_resume_text =
     (if 0 < length ms \<and> raw_resume_text \<noteq> []
      then verify_loop (normalize_text raw_resume_text) ms (0, 0) else (0, 0))"

definition skill_depth_points :: "candidate \<Rightarrow> string list \<Rightarrow> rat \<Rightarrow> rat" where
  "skill_depth_points c required_skills min_experience =
     (let parts = fst (skill_depth_loop (map lower required_skills)
                         (lower_keys (skills_with_years c)) (max min_experience 1));
          avg_depth = (if parts \<noteq> [] then sum_list parts / of_nat (length parts) else 0)
      in avg_depth * 40)"

definition jd_requirements_points :: "candidate \<Rightarrow> string \<Rightarrow> rat" where
  "jd_requirements_points c raw_resume_text =
     (let ms = jd_requirement_matches c in
      if 0 < length ms \<and> raw_resume_text \<noteq> []
      then of_nat (fst (verify_citations ms raw_resume_text)) / of_nat (length ms) * 30
      else 0)"

definition experience_points :: "candidate \<Rightarrow> rat \<Rightarrow> rat" where
  "experience_points c min_experience =
     (if min_experience \<le> total_years_experience c then 20
      else total_years_experience c / max min_experience 1 * 20)"

definition impact_points :: "candidate \<Rightarrow> rat" where
  "impact_points c = min 10 (of_int (metrics_bullet_count c) / 5 * 10)"

definition raw_score :: "candidate \<Rightarrow> string list \<Rightarrow> rat \<Rightarrow> string \<Rightarrow> rat" where
  "raw_score c required_skills min_experience raw_resume_text =
     skill_depth_points c required_skills min_experience
     + jd_requirements_points c raw_resume_text
     + experience_points c min_experience
     + impact_points c"

definition bucket :: "int \<Rightarrow> string" where
  "bucket score =
     (if 80 \<le> score then ''shortlisted'' else if 60 \<le> score then ''review'' else ''rejected'')"

text \<open>\<^verbatim>\<open>calculate_deterministic_score\<close>. The text summary of the result is a string
  template over the same values and is not part of the model.\<close>

definition calculate_deterministic_score ::
  "candidate \<Rightarrow> string list \<Rightarrow> rat \<Rightarrow> string \<Rightarrow> scoring_result" where
  "calculate_deterministic_score c required_skills min_experience raw_resume_text =
     (let matched = snd (skill_depth_loop (map lower required_skills)
                           (lower_keys (skills_with_years c)) (max min_experience 1));
          vh = verify_citations (jd_requirement_matches c) raw_resume_text;
          score = py_round (raw_score c required_skills min_experience raw_resume_text)
      in \<lparr> final_score = score,
           status = bucket score,
           matched_skills_count = length matched,
           matched_skills = matched,
           verified_requirements = fst vh,
           total_requirements = length (jd_requirement_matches c),
           hallucination_count = snd vh,
           breakdown =
             \<lparr> skill_depth = py_round1 (skill_depth_points c required_skills min_experience),
               jd_requirements = py_round1 (jd_requirements_points c raw_resume_text),
               experience = py_round1 (experience_points c min_experience),
               impact = py_round1 (impact_points c) \<rparr> \<rparr>)"

subsection \<open>The scorer's arithmetic in floating point\<close>

text \<open>The scorer computes in Python floats, so every division, product and sum it
  takes is rounded by the runtime. The operations are a parameter here: the four
  component formulas and their sum below follow \<^verbatim>\<open>calculate_deterministic_score\<close>
  operation by operation, in the order the source evaluates them.\<close>

record float_arith =
  fl_add :: "rat \<Rightarrow> rat \<Rightarrow> rat"
  fl_mul :: "rat \<Rightarrow> rat \<Rightarrow> rat"
  fl_div :: "rat \<Rightarrow> rat \<Rightarrow> rat"
  fl_sum :: "rat list \<Rightarrow> rat"

fun skill_depth_loop_with ::
  "float_arith \<Rightarrow> string list \<Rightarrow> skills \<Rightarrow> rat \<Rightarrow> rat list \<times> string list" where
  "skill_depth_loop_with F [] csl effective_min = ([], [])"
| "skill_depth_loop_with F (req_skill # rest) csl effective_min =
     (let (parts, matched) = skill_depth_loop_with F rest csl effective_min in
      case fuzzy_match_skill req_skill csl of
        (Some matched_key, candidate_yrs) \<Rightarrow>
          (min 1 (fl_div F candidate_yrs effective_min) # parts, req_skill # matched)
      | (None, candidate_yrs) \<Rightarrow> (0 # parts, matched))"

definition skill_depth_points_with :: "float_arith \<Rightarrow> candidate \<Rightarrow> string list \<Rightarrow> rat \<Rightarrow> rat" where
  "skill_depth_points_with F c required_skills min_experience =
     (let parts = fst (skill_depth_loop_with F (map lower required_skills)
                         (lower_keys (skills_with_years c)) (max min_experience 1));
          avg_depth = (if parts \<noteq> [] then fl_div F (fl_sum F parts) (of_nat (length parts))
                       else 0)
      in fl_mul F avg_depth 40)"

definition jd_requirements_points_with :: "float_arith \<Rightarrow> candidate \<Rightarrow> string \<Rightarrow> rat" where
  "jd_requirements_points_with F c raw_resume_text =
     (let ms = jd_requirement_matches c in
      if 0 < length ms \<and> raw_resume_text \<noteq> []
      then fl_mul F (fl_div F (of_nat (fst (verify_citations ms raw_resume_text)))
                       (of_nat (length ms))) 30
      else 0)"

definition experience_points_with :: "float_arith \<Rightarrow> candidate \<Rightarrow> rat \<Rightarrow> rat" where
  "experience_points_with F c min_experience =
     (if min_experience \<le> total_years_experience c then 20
      else fl_mul F (fl_div F (total_years_experience c) (max min_experience 1)) 20)"

definition impact_points_with :: "float_arith \<Rightarrow> candidate \<Rightarrow> rat" where
  "impact_points_with F c = min 10 (fl_mul F (fl_div F (of_int (metrics_bullet_count c)) 5) 10)"

text \<open>\<^verbatim>\<open>raw = skill_depth_points + jd_requirements_points + experience_points + impact_points\<close>,
  added from left to right, and \<^verbatim>\<open>final_score = int(round(raw))\<close>.\<close>

definition raw_score_with ::
  "float_arith \<Rightarrow> candidate \<Rightarrow> string list \<Rightarrow> rat \<Rightarrow> string \<Rightarrow> rat" where
  "raw_score_with F c required_skills min_experience raw_resume_text =
     fl_add F
       (fl_add F
          (fl_add F (skill_depth_points_with F c required_skills min_experience)
                    (jd_requirements_points_with F c raw_resume_text))
          (experience_points_with F c min_experience))
       (impact_points_with F c)"

definition final_score_with ::
  "float_arith \<Rightarrow> candidate \<Rightarrow> string list \<Rightarrow> rat \<Rightarrow> string \<Rightarrow> int" where
  "final_score_with F c required_skills min_experience raw_resume_text =
     py_round (raw_score_with F c required_skills min_experience raw_resume_text)"

text \<open>Arithmetic without rounding: the idealisation behind \<^const>\<open>raw_score\<close>.\<close>

definition exact_arith :: float_arith where
  "exact_arith =
     \<lparr> fl_add = (\<lambda>a b. a + b), fl_mul = (\<lambda>a b. a * b), fl_div = (\<lambda>a b. a / b),
       fl_sum = sum_list \<rparr>"

text \<open>IEEE 754 binary64, the format of a Python float, with rounding to nearest and
  ties to the even significand: \<open>pow2 e\<close> is \<open>2\<^sup>e\<close>, \<open>floor_log2 a\<close> the exponent of the
  leading bit of a positive \<open>a\<close>, and a value is rounded at 53 significant bits, or at
  the fixed step \<open>2\<^sup>-\<^sup>1\<^sup>0\<^sup>7\<^sup>4\<close> in the subnormal range. Overflow to infinity is not
  modelled.\<close>

definition pow2 :: "int \<Rightarrow> rat" where
  "pow2 e = (if 0 \<le> e then 2 ^ nat e else 1 / 2 ^ nat (- e))"

definition floor_log2 :: "rat \<Rightarrow> int" where
  "floor_log2 a =
     (let (p, q) = quotient_of a; e = bitlen p - bitlen q
      in if pow2 e \<le> a then e else e - 1)"

definition round_to_binary64 :: "rat \<Rightarrow> rat" where
  "round_to_binary64 x =
     (if x = 0 then 0
      else (let a = \<bar>x\<bar>;
                e = max (floor_log2 a - 52) (- 1074);
                m = py_round (a / pow2 e)
            in sgn x * of_int m * pow2 e))"

text \<open>Every operation is the exact result rounded once; \<^verbatim>\<open>sum\<close> adds the elements to
  the start value 0 from left to right. (CPython from 3.12 on compensates the rounding
  errors of a float sum; for a list of at most two elements the result is the same.)\<close>

definition binary64_arith :: float_arith where
  "binary64_arith =
     \<lparr> fl_add = (\<lambda>a b. round_to_binary64 (a + b)),
       fl_mul = (\<lambda>a b. round_to_binary64 (a * b)),
       fl_div = (\<lambda>a b. round_to_binary64 (a / b)),
       fl_sum = foldl (\<lambda>s x. round_to_binary64 (s + x)) 0 \<rparr>"

subsection \<open>Knockout filter\<close>

text \<open>The rule-based gate of \<^verbatim>\<open>process_resumes_background\<close> (\<^verbatim>\<open>main.py\<close>) and of
  \<^verbatim>\<open>apply_for_job\<close> (\<^verbatim>\<open>routers/applicants.py\<close>); the two sites have the same text.
  The reason is the rule that fired; the formatted message is not modelled.\<close>

datatype knockout_reason = InsufficientExperience | SkillFloorNotMet

text \<open>\<^verbatim>\<open>any(s in k or k in s for k in candidate_skill_keys)\<close>, where
  \<^verbatim>\<open>candidate_skill_keys = {k.lower() for k in skills_with_years}\<close>.\<close>

definition candidate_skill_keys :: "skills \<Rightarrow> string set" where
  "candidate_skill_keys sk = lower ` fst ` set sk"

definition skill_present :: "string \<Rightarrow> string set \<Rightarrow> bool" where
  "skill_present s keys = (\<exists>k \<in> keys. sublist s k \<or> sublist k s)"

definition knockout_filter ::
  "rat \<Rightarrow> skills \<Rightarrow> string list \<Rightarrow> rat \<Rightarrow> bool \<times> knockout_reason option" where
  "knockout_filter years sk required_skills min_experience =
     (let ko1 = (if years < min_experience - 1 / 2
                 then (True, Some InsufficientExperience) else (False, None))
      in if \<not> fst ko1 \<and> required_skills \<noteq> [] then
           (let required_lower = map lower required_skills;
                matched_ko = filter (\<lambda>s. skill_present s (candidate_skill_keys sk)) required_lower;
                coverage = (of_nat (length matched_ko) :: rat) / of_nat (length required_lower)
            in if coverage < 1 / 2 then (True, Some SkillFloorNotMet) else ko1)
         else ko1)"

subsection \<open>Per-resume pipelines\<close>

text \<open>The stages a pipeline runs on one resume after the fact extraction, in order.\<close>

datatype stage = KnockoutFilter | Scorer | Persist

text \<open>\<^verbatim>\<open>int(x)\<close> on a float: truncation towards zero.\<close>

definition py_int_of_float :: "rat \<Rightarrow> int" where
  "py_int_of_float r = (if 0 \<le> r then \<lfloor>r\<rfloor> else \<lceil>r\<rceil>)"

text \<open>The entry of \<^verbatim>\<open>candidates\<close> that \<^verbatim>\<open>process_resumes_background\<close> appends.\<close>

record screened_candidate =
  sc_name :: string
  sc_email :: string
  sc_years_experience :: rat
  sc_match_score :: int
  sc_status :: string
  sc_breakdown :: "score_breakdown option"

text \<open>Stages 3 to 5 of \<^verbatim>\<open>process_resumes_background\<close> (\<^verbatim>\<open>main.py\<close>) on the facts
  extracted from one resume.\<close>

definition screen_resume_background ::
  "candidate \<Rightarrow> string list \<Rightarrow> rat \<Rightarrow> string \<Rightarrow> stage list \<times> screened_candidate" where
  "screen_resume_background c required_skills min_experience resume_text =
     (let ko = knockout_filter (total_years_experience c) (skills_with_years c)
                 required_skills min_experience
      in if fst ko then
           ([KnockoutFilter, Persist],
            \<lparr> sc_name = name c, sc_email = email c,
              sc_years_experience = total_years_experience c,
              sc_match_score = 0, sc_status = ''rejected'', sc_breakdown = None \<rparr>)
         else
           (let result = calculate_deterministic_score c required_skills min_experience resume_text
            in ([KnockoutFilter, Scorer, Persist],
                \<lparr> sc_name = name c, sc_email = email c,
                  sc_years_experience = total_years_experience c,
                  sc_match_score = final_score result, sc_status = status result,
                  sc_breakdown = Some (breakdown result) \<rparr>)))"

text \<open>The columns of a job and of a persisted applicant that the pipeline reads and
  writes (\<^verbatim>\<open>models.py\<close>); a nullable column is an option.\<close>

record job =
  job_title :: "string option"
  job_min_experience :: "int option"
  job_required_skills :: "string list option"
  job_processed_resumes :: "int option"

record applicant =
  applicant_name :: string
  applicant_email :: string
  years_experience :: int
  match_score :: "int option"
  applicant_status :: string
  applicant_breakdown :: "score_breakdown option"

text \<open>The Celery task \<^verbatim>\<open>process_resume\<close> (\<^verbatim>\<open>services/tasks.py\<close>) on the facts extracted
  from one resume: the task that \<^verbatim>\<open>/api/bulk-screen\<close> dispatches for every resume of a
  batch.\<close>

definition process_resume :: "candidate \<Rightarrow> job \<Rightarrow> string \<Rightarrow> stage list \<times> applicant" where
  "process_resume c j resume_text =
     (let result = calculate_deterministic_score c
                     (case job_required_skills j of None \<Rightarrow> [] | Some rs \<Rightarrow> rs)
                     (of_int (case job_min_experience j of None \<Rightarrow> 0 | Some m \<Rightarrow> m))
                     resume_text
      in ([Scorer, Persist],
          \<lparr> applicant_name = name c, applicant_email = email c,
            years_experience = py_int_of_float (total_years_experience c),
            match_score = Some (final_score result),
            applicant_status = status result,
            applicant_breakdown = Some (breakdown result) \<rparr>))"

subsection \<open>Batch aggregation\<close>

text \<open>\<^verbatim>\<open>candidates.sort(key=..., reverse=True)\<close>: a stable sort by descending key.\<close>

definition sort_desc :: "('a \<Rightarrow> int) \<Rightarrow> 'a list \<Rightarrow> 'a list" where
  "sort_desc key xs = sort_key (\<lambda>x. - key x) xs"

text \<open>The top tenth, at least one, of a ranked list; nothing of an empty one.\<close>

definition top_10_percent :: "'a list \<Rightarrow> 'a list" where
  "top_10_percent candidates =
     (if candidates \<noteq> [] then take (max 1 (length candidates div 10)) candidates else [])"

text \<open>The end of \<^verbatim>\<open>process_resumes_background\<close> (\<^verbatim>\<open>main.py\<close>): the pair
  (\<^verbatim>\<open>shortlisted\<close>, \<^verbatim>\<open>all_candidates\<close>).\<close>

definition rank_candidates ::
  "screened_candidate list \<Rightarrow> screened_candidate list \<times> screened_candidate list" where
  "rank_candidates candidates =
     (let sorted_candidates = sort_desc sc_match_score candidates
      in (top_10_percent sorted_candidates, sorted_candidates))"

text \<open>\<^verbatim>\<open>x.get("match_score") or 0\<close>.\<close>

definition score_or_zero :: "applicant \<Rightarrow> int" where
  "score_or_zero a = (case match_score a of None \<Rightarrow> 0 | Some s \<Rightarrow> s)"

record results_payload =
  total_processed :: nat
  duplicates_skipped :: int
  knocked_out :: nat
  scored :: nat
  shortlisted_count :: nat
  review_count :: nat
  rejected_count :: nat
  shortlisted :: "applicant list"
  all_candidates :: "applicant list"

text \<open>\<^verbatim>\<open>_build_results_payload\<close> (\<^verbatim>\<open>services/tasks.py\<close>).\<close>

definition build_results_payload :: "job \<Rightarrow> applicant list \<Rightarrow> results_payload" where
  "build_results_payload j applicants =
     (let candidates = sort_desc score_or_zero applicants;
          top = top_10_percent candidates;
          processed_resumes = (case job_processed_resumes j of None \<Rightarrow> 0 | Some n \<Rightarrow> n);
          total_saved = length candidates
      in \<lparr> total_processed = total_saved,
           duplicates_skipped = max 0 (processed_resumes - int total_saved),
           knocked_out = 0,
           scored = total_saved,
           shortlisted_count = length top,
           review_count = length (filter (\<lambda>a. applicant_status a = ''review'') candidates),
           rejected_count = length (filter (\<lambda>a. applicant_status a = ''rejected'') candidates),
           shortlisted = top,
           all_candidates = candidates \<rparr>)"

subsection \<open>Fact extraction: sanitization and failure handling\<close>

text \<open>The values \<^verbatim>\<open>json.loads\<close> produces; a JSON object is a \<^verbatim>\<open>dict\<close> with string keys.\<close>

datatype pyval =
    PNone
  | PBool bool
  | PInt int
  | PFloat rat
  | PStr string
  | PList "pyval list"
  | PDict "(string \<times> pyval) list"

type_synonym pydict = "(string \<times> pyval) list"

datatype error = AIServiceUnavailableError | ValueError | TypeError | AttributeError | CallError

text \<open>The Python built-ins whose text formats are outside this repository: the parsers
  behind \<^verbatim>\<open>float(s)\<close> and \<^verbatim>\<open>int(s)\<close> on a string (\<^verbatim>\<open>None\<close> where Python raises
  \<^verbatim>\<open>ValueError\<close>) and \<^verbatim>\<open>str(v)\<close> on a value that is not a string.\<close>

record builtins =
  float_of_str :: "string \<Rightarrow> rat option"
  int_of_str :: "string \<Rightarrow> int option"
  str_of_value :: "pyval \<Rightarrow> string"

fun py_truth :: "pyval \<Rightarrow> bool" where
  "py_truth PNone = False"
| "py_truth (PBool b) = b"
| "py_truth (PInt i) = (i \<noteq> 0)"
| "py_truth (PFloat r) = (r \<noteq> 0)"
| "py_truth (PStr s) = (s \<noteq> [])"
| "py_truth (PList vs) = (vs \<noteq> [])"
| "py_truth (PDict d) = (d \<noteq> [])"

text \<open>\<^verbatim>\<open>a or b\<close>, \<^verbatim>\<open>d.get(k)\<close>, \<^verbatim>\<open>d.get(k, default)\<close>, \<^verbatim>\<open>d.setdefault(k, v)\<close>.\<close>

definition py_or :: "pyval \<Rightarrow> pyval \<Rightarrow> pyval" where
  "py_or a b = (if py_truth a then a else b)"

definition dict_get :: "pydict \<Rightarrow> string \<Rightarrow> pyval" where
  "dict_get d k = (case map_of d k of None \<Rightarrow> PNone | Some v \<Rightarrow> v)"

definition dict_get_default :: "pydict \<Rightarrow> string \<Rightarrow> pyval \<Rightarrow> pyval" where
  "dict_get_default d k dflt = (case map_of d k of None \<Rightarrow> dflt | Some v \<Rightarrow> v)"

definition setdefault :: "string \<Rightarrow> pyval \<Rightarrow> pydict \<Rightarrow> pydict" where
  "setdefault k v d = (case map_of d k of None \<Rightarrow> d @ [(k, v)] | Some w \<Rightarrow> d)"

fun py_float :: "builtins \<Rightarrow> pyval \<Rightarrow> error + rat" where
  "py_float B (PBool b) = Inr (if b then 1 else 0)"
| "py_float B (PInt i) = Inr (of_int i)"
| "py_float B (PFloat r) = Inr r"
| "py_float B (PStr s) = (case float_of_str B s of None \<Rightarrow> Inl ValueError | Some r \<Rightarrow> Inr r)"
| "py_float B v = Inl TypeError"

fun py_int :: "builtins \<Rightarrow> pyval \<Rightarrow> error + int" where
  "py_int B (PBool b) = Inr (if b then 1 else 0)"
| "py_int B (PInt i) = Inr i"
| "py_int B (PFloat r) = Inr (py_int_of_float r)"
| "py_int B (PStr s) = (case int_of_str B s of None \<Rightarrow> Inl ValueError | Some i \<Rightarrow> Inr i)"
| "py_int B v = Inl TypeError"

definition py_str :: "builtins \<Rightarrow> pyval \<Rightarrow> string" where
  "py_str B v = (case v of PStr s \<Rightarrow> s | _ \<Rightarrow> str_of_value B v)"

text \<open>\<^verbatim>\<open>{k: float(v) for k, v in d.items()}\<close>: the first value that cannot be converted
  raises.\<close>

fun float_values :: "builtins \<Rightarrow> pydict \<Rightarrow> error + pydict" where
  "float_values B [] = Inr []"
| "float_values B ((k, v) # kvs) =
     (case py_float B v of
        Inl e \<Rightarrow> Inl e
      | Inr r \<Rightarrow> (case float_values B kvs of Inl e \<Rightarrow> Inl e | Inr d \<Rightarrow> Inr ((k, PFloat r) # d)))"

text \<open>The loop over \<^verbatim>\<open>jd_requirement_matches\<close>: an entry that is not a \<^verbatim>\<open>dict\<close> is
  dropped, the three fields of the others are kept.\<close>

fun sanitize_matches :: "builtins \<Rightarrow> pyval list \<Rightarrow> pyval list" where
  "sanitize_matches B [] = []"
| "sanitize_matches B (PDict m # rest) =
     PDict [(''requirement'', PStr (py_str B (dict_get_default m ''requirement'' (PStr [])))),
            (''is_met'', PBool (py_truth (dict_get_default m ''is_met'' (PBool False)))),
            (''citation_quote'', dict_get m ''citation_quote'')]
     # sanitize_matches B rest"
| "sanitize_matches B (v # rest) = sanitize_matches B rest"

text \<open>The type sanitization of \<^verbatim>\<open>extract_candidate_facts\<close>, statement by statement,
  on the parsed \<^verbatim>\<open>data\<close>.\<close>

definition sanitize :: "builtins \<Rightarrow> pydict \<Rightarrow> error + pydict" where
  "sanitize B data =
     (case py_float B (py_or (dict_get data ''total_years_experience'') (PInt 0)) of
        Inl e \<Rightarrow> Inl e
      | Inr years \<Rightarrow>
     (let d1 = AList.update ''total_years_experience'' (PFloat years) data;
          titles = py_or (dict_get d1 ''recent_job_titles'') (PList []);
          d2 = AList.update ''recent_job_titles''
                 (case titles of PList ts \<Rightarrow> titles | _ \<Rightarrow> PList []) d1;
          sk = py_or (dict_get d2 ''skills_with_years'') (PDict []);
          sk_items = (case sk of PDict items \<Rightarrow> items | _ \<Rightarrow> [])
      in case float_values B sk_items of
           Inl e \<Rightarrow> Inl e
         | Inr sk_floats \<Rightarrow>
     (let d3 = AList.update ''skills_with_years'' (PDict sk_floats) d2
      in case py_int B (py_or (dict_get d3 ''metrics_bullet_count'') (PInt 0)) of
           Inl e \<Rightarrow> Inl e
         | Inr bullets \<Rightarrow>
     (let d4 = AList.update ''metrics_bullet_count'' (PInt bullets) d3;
          d5 = setdefault ''name'' (PStr ''Unknown Candidate'') d4;
          d6 = setdefault ''email'' (PStr ''unknown@error.com'') d5;
          d7 = setdefault ''phone'' (PStr []) d6
      in if map_of d7 ''jd_requirement_matches'' \<noteq> None then
           (let matches = py_or (dict_get d7 ''jd_requirement_matches'') (PList []);
                match_list = (case matches of PList ms \<Rightarrow> ms | _ \<Rightarrow> [])
            in Inr (AList.update ''jd_requirement_matches''
                      (PList (sanitize_matches B match_list)) d7))
         else Inr d7))))"

text \<open>What the call of the external model and the parsing of its answer come to:
  \<^verbatim>\<open>generate_content\<close> raised, \<^verbatim>\<open>json.loads\<close> raised, or a value was parsed.\<close>

datatype ai_reply = CallFailed | Unparsable | Parsed pyval

text \<open>The body of the \<^verbatim>\<open>try\<close> block: a parsed value that is not a \<^verbatim>\<open>dict\<close> has no
  \<^verbatim>\<open>get\<close>.\<close>

definition try_extract :: "builtins \<Rightarrow> ai_reply \<Rightarrow> error + pydict" where
  "try_extract B reply =
     (case reply of
        CallFailed \<Rightarrow> Inl CallError
      | Unparsable \<Rightarrow> Inl ValueError
      | Parsed (PDict data) \<Rightarrow> sanitize B data
      | Parsed v \<Rightarrow> Inl AttributeError)"

definition sentinel_facts :: pydict where
  "sentinel_facts =
     [(''name'', PStr ''Unknown Candidate''),
      (''email'', PStr ''unknown@error.com''),
      (''phone'', PStr []),
      (''total_years_experience'', PFloat 0),
      (''recent_job_titles'', PList []),
      (''skills_with_years'', PDict []),
      (''metrics_bullet_count'', PInt 0)]"

text \<open>\<^verbatim>\<open>extract_candidate_facts\<close>: \<^verbatim>\<open>model_available\<close> says whether \<^verbatim>\<open>_get_model()\<close>
  returned a model; \<^verbatim>\<open>Inl\<close> is the exception that leaves the function.\<close>

definition extract_candidate_facts ::
  "builtins \<Rightarrow> bool \<Rightarrow> ai_reply \<Rightarrow> bool \<Rightarrow> error + pydict" where
  "extract_candidate_facts B model_available reply fail_on_unavailable =
     (if \<not> model_available then
        (if fail_on_unavailable then Inl AIServiceUnavailableError else Inr sentinel_facts)
      else
        (case try_extract B reply of
           Inr data \<Rightarrow> Inr data
         | Inl e \<Rightarrow> Inr sentinel_facts))"

subsection \<open>What the verifier counts\<close>

text \<open>The wording of the specification: a match is verified when it is claimed met,
  its citation is not null, and the normalized citation occurs in the normalized
  resume text.\<close>

definition claimed_verified :: "string \<Rightarrow> requirement_match \<Rightarrow> bool" where
  "claimed_verified resume_text m =
     (is_met m \<and>
      (case citation_quote m of
         None \<Rightarrow> False
       | Some q \<Rightarrow> sublist (normalize_text q) (normalize_text resume_text)))"

text \<open>The same with the citation required to be a non-empty string as well.\<close>

definition citation_verified :: "string \<Rightarrow> requirement_match \<Rightarrow> bool" where
  "citation_verified resume_text m =
     (is_met m \<and>
      (case citation_quote m of
         None \<Rightarrow> False
       | Some q \<Rightarrow> q \<noteq> [] \<and> sublist (normalize_text q) (normalize_text resume_text)))"

definition citation_hallucinated :: "string \<Rightarrow> requirement_match \<Rightarrow> bool" where
  "citation_hallucinated resume_text m = (is_met m \<and> \<not> citation_verified resume_text m)"

text \<open>The share of the required skills, lower-cased, that the membership test finds
  among the candidate's lower-cased skill keys.\<close>

definition skill_coverage :: "skills \<Rightarrow> string list \<Rightarrow> rat" where
  "skill_coverage sk required_skills =
     of_nat (length (filter (\<lambda>s. \<exists>k \<in> lower ` fst ` set sk. sublist s k \<or> sublist k s)
                       (map lower required_skills)))
     / of_nat (length required_skills)"

subsection \<open>Example inputs\<close>

text \<open>The perfect candidate of the unit tests: three required skills at full depth,
  one requirement with a citation found in the resume, five quantified bullets.\<close>

definition perfect_candidate :: candidate where
  "perfect_candidate =
     \<lparr> name = ''Alice'', email = ''alice@example.com'', phone = [],
       total_years_experience = 5, recent_job_titles = [''Backend Engineer''],
       skills_with_years = [(''python'', 5), (''fastapi'', 5), (''postgresql'', 5)],
       metrics_bullet_count = 5,
       jd_requirement_matches =
         [\<lparr> requirement = ''Must have Python experience'', is_met = True,
             citation_quote = Some ''5 years Python'' \<rparr>] \<rparr>"

definition perfect_resume :: string where
  "perfect_resume = ''Candidate has 5 years Python and strong backend ownership.''"

text \<open>A requirement claimed met whose citation is the empty string.\<close>

definition empty_quote_match :: requirement_match where
  "empty_quote_match =
     \<lparr> requirement = ''Must know FastAPI'', is_met = True, citation_quote = Some [] \<rparr>"

definition unmet_match :: requirement_match where
  "unmet_match =
     \<lparr> requirement = ''Must know Rust'', is_met = False, citation_quote = None \<rparr>"

definition invented_quote_match :: requirement_match where
  "invented_quote_match =
     \<lparr> requirement = ''Must know Kubernetes'', is_met = True,
       citation_quote = Some ''Ran Kubernetes clusters'' \<rparr>"

text \<open>A candidate whose raw score is exactly two and a half against one required
  skill and eight years of minimum experience: half a year of the skill, nothing else.\<close>

definition tie_candidate :: candidate where
  "tie_candidate =
     \<lparr> name = ''Tie'', email = ''tie@example.com'', phone = [],
       total_years_experience = 0, recent_job_titles = [],
       skills_with_years = [(''python'', 1 / 2)],
       metrics_bullet_count = 0,
       jd_requirement_matches = [] \<rparr>"

text \<open>A candidate with half a year of experience against a job that asks for five
  years: the experience floor of the knockout filter applies (\<^verbatim>\<open>0.5 < 5 - 0.5\<close>).\<close>

definition rookie_candidate :: candidate where
  "rookie_candidate =
     \<lparr> name = ''Bob Rookie'', email = ''bob.rookie@example.com'', phone = [],
       total_years_experience = 1 / 2, recent_job_titles = [],
       skills_with_years = [(''Python'', 1 / 2), (''FastAPI'', 1 / 4)],
       metrics_bullet_count = 0,
       jd_requirement_matches = [] \<rparr>"

definition rookie_resume :: string where
  "rookie_resume = ''Bob Rookie, B.Sc. Computer Science 2024. Python: 6 months. FastAPI: 3 months.''"

definition backend_job :: job where
  "backend_job =
     \<lparr> job_title = Some ''Backend Engineer'', job_min_experience = Some 5,
       job_required_skills = Some [''Python''], job_processed_resumes = Some 3 \<rparr>"

definition scored_applicant :: "string \<Rightarrow> int option \<Rightarrow> applicant" where
  "scored_applicant n s =
     \<lparr> applicant_name = n, applicant_email = n @ ''@example.com'', years_experience = 3,
       match_score = s,
       applicant_status = bucket (case s of None \<Rightarrow> 0 | Some v \<Rightarrow> v),
       applicant_breakdown = None \<rparr>"

text \<open>Built-ins that parse no string, and a payload whose skill years cannot be
  converted after the years of experience have been.\<close>

definition strict_builtins :: builtins where
  "strict_builtins =
     \<lparr> float_of_str = (\<lambda>s. None), int_of_str = (\<lambda>s. None), str_of_value = (\<lambda>v. []) \<rparr>"

definition half_bad_payload :: pyval where
  "half_bad_payload =
     PDict [(''name'', PStr ''Carol''),
            (''total_years_experience'', PInt 3),
            (''skills_with_years'', PDict [(''python'', PFloat 2), (''sql'', PList [])])]"

definition good_payload :: pyval where
  "good_payload =
     PDict [(''name'', PStr ''Dave''),
            (''total_years_experience'', PInt 4),
            (''skills_with_years'', PDict [(''python'', PInt 4)]),
            (''jd_requirement_matches'',
               PList [PDict [(''requirement'', PStr ''Must know Python''), (''is_met'', PBool True)],
                      PStr ''noise''])]"

text \<open>A candidate whose exact component sum is 52.5 against the required skills
  \<^verbatim>\<open>python\<close> and \<^verbatim>\<open>sql\<close> and three years of minimum experience, with three of four
  requirements verified; every input is a binary fraction.\<close>

definition near_tie_candidate :: candidate where
  "near_tie_candidate =
     \<lparr> name = ''Nia'', email = ''nia@example.com'', phone = [],
       total_years_experience = 1 / 2, recent_job_titles = [],
       skills_with_years = [(''python'', 3 / 2), (''sql'', 5 / 2)],
       metrics_bullet_count = 0,
       jd_requirement_matches =
         [\<lparr> requirement = ''Must know Python'', is_met = True,
             citation_quote = Some ''python'' \<rparr>,
          \<lparr> requirement = ''Must know SQL'', is_met = True, citation_quote = Some ''sql'' \<rparr>,
          \<lparr> requirement = ''Must write reports'', is_met = True,
             citation_quote = Some ''reports'' \<rparr>,
          \<lparr> requirement = ''Must know Rust'', is_met = False, citation_quote = None \<rparr>] \<rparr>"

definition near_tie_resume :: string where
  "near_tie_resume = ''Python and SQL reports for the finance team.''"

section \<open>Properties\<close>

subsection \<open>Bounds of the four score components\<close>

lemma update_values: "snd ` set (AList.update k v al) \<subseteq> insert v (snd ` set al)"
  by (induction al) auto

lemma foldl_update_values:
  "snd ` set (foldl (\<lambda>d (k, v). AList.update (f k) v d) acc sk) \<subseteq> snd ` set acc \<union> snd ` set sk"
proof (induction sk arbitrary: acc)
  case Nil
  then show ?case by simp
next
  case (Cons p sk)
  obtain k v where p: "p = (k, v)" by (cases p)
  have "snd ` set (foldl (\<lambda>d (k, v). AList.update (f k) v d) (AList.update (f k) v acc) sk)
        \<subseteq> snd ` set (AList.update (f k) v acc) \<union> snd ` set sk"
    by (rule Cons.IH)
  also have "\<dots> \<subseteq> insert v (snd ` set acc) \<union> snd ` set sk"
    using update_values [of "f k" v acc] by blast
  finally show ?case by (auto simp: p)
qed

lemma lower_keys_values: "snd ` set (lower_keys sk) \<subseteq> snd ` set sk"
  using foldl_update_values [of lower "[]" sk] by (simp add: lower_keys_def)

lemma find_Some_mem: "find P xs = Some x \<Longrightarrow> x \<in> set xs \<and> P x"
  by (induction xs) (auto split: if_splits)

lemma ratio_scaled_bounds:
  fixes a b k :: rat
  assumes "0 \<le> a" and "a \<le> b" and "0 < b" and "0 \<le> k"
  shows "0 \<le> a / b * k \<and> a / b * k \<le> k"
proof -
  have r: "0 \<le> a / b" "a / b \<le> 1" using assms by (simp_all add: divide_le_eq)
  have "a / b * k \<le> 1 * k" using r(2) assms(4) by (rule mult_right_mono)
  moreover have "0 \<le> a / b * k" using r(1) assms(4) by (rule mult_nonneg_nonneg)
  ultimately show ?thesis by simp
qed

lemma fuzzy_match_skill_years:
  "snd (fuzzy_match_skill r csl) = 0 \<or> snd (fuzzy_match_skill r csl) \<in> snd ` set csl"
proof (cases "map_of csl (lower r)")
  case (Some y)
  then have "(lower r, y) \<in> set csl" by (rule map_of_SomeD)
  then have "y \<in> snd ` set csl" by force
  with Some show ?thesis by (simp add: fuzzy_match_skill_def)
next
  case None
  show ?thesis
  proof (cases "find (\<lambda>(key, yrs). sublist (lower r) key \<or> sublist key (lower r)) csl")
    case N2: None
    with None show ?thesis by (simp add: fuzzy_match_skill_def)
  next
    case (Some p)
    then have "p \<in> set csl" by (rule find_Some_mem [THEN conjunct1])
    then have "snd p \<in> snd ` set csl" by simp
    with None Some show ?thesis by (cases p) (simp add: fuzzy_match_skill_def)
  qed
qed

lemma skill_depth_loop_parts:
  assumes "\<forall>y \<in> snd ` set csl. 0 \<le> y" and "0 < eff"
  shows "\<forall>d \<in> set (fst (skill_depth_loop rs csl eff)). 0 \<le> d \<and> d \<le> 1"
proof (induction rs)
  case Nil
  then show ?case by simp
next
  case (Cons r rs)
  have y: "0 \<le> snd (fuzzy_match_skill r csl)"
    using fuzzy_match_skill_years [of r csl] assms(1) by auto
  then have "0 \<le> snd (fuzzy_match_skill r csl) / eff"
    using assms(2) by simp
  with Cons show ?case
    by (auto split: prod.splits option.splits)
qed

lemma skill_depth_loop_length: "length (fst (skill_depth_loop rs csl eff)) = length rs"
  by (induction rs) (auto split: prod.splits option.splits)

lemma sum_list_bounds:
  fixes xs :: "rat list"
  assumes "\<forall>d \<in> set xs. 0 \<le> d \<and> d \<le> 1"
  shows "0 \<le> sum_list xs \<and> sum_list xs \<le> of_nat (length xs)"
  using assms by (induction xs) auto

lemma skill_depth_points_bounds:
  assumes "\<forall>y \<in> snd ` set (skills_with_years c). 0 \<le> y"
  shows "0 \<le> skill_depth_points c rs m \<and> skill_depth_points c rs m \<le> 40"
proof -
  define parts where "parts = fst (skill_depth_loop (map lower rs) (lower_keys (skills_with_years c)) (max m 1))"
  have "\<forall>y \<in> snd ` set (lower_keys (skills_with_years c)). 0 \<le> y"
    using assms lower_keys_values [of "skills_with_years c"] by blast
  then have "\<forall>d \<in> set parts. 0 \<le> d \<and> d \<le> 1"
    unfolding parts_def by (rule skill_depth_loop_parts) simp
  then have b: "0 \<le> sum_list parts \<and> sum_list parts \<le> of_nat (length parts)"
    by (rule sum_list_bounds)
  show ?thesis
  proof (cases "parts = []")
    case True
    then show ?thesis by (simp add: skill_depth_points_def parts_def [symmetric])
  next
    case False
    then have pos: "(0::rat) < of_nat (length parts)" by simp
    have "0 \<le> sum_list parts / of_nat (length parts) * 40
          \<and> sum_list parts / of_nat (length parts) * 40 \<le> 40"
      using b pos by (intro ratio_scaled_bounds) simp_all
    then show ?thesis using False
      unfolding skill_depth_points_def parts_def [symmetric] Let_def by simp
  qed
qed

lemma verify_step_sum:
  "fst (verify_step nr m vh) + snd (verify_step nr m vh) \<le> fst vh + snd vh + 1"
  by (cases vh) (simp add: verify_step_def)

lemma verify_loop_sum:
  "fst (verify_loop nr ms vh) + snd (verify_loop nr ms vh) \<le> fst vh + snd vh + length ms"
proof (induction ms arbitrary: vh)
  case Nil
  then show ?case by simp
next
  case (Cons m ms)
  have "fst (verify_loop nr ms (verify_step nr m vh)) + snd (verify_loop nr ms (verify_step nr m vh))
        \<le> fst (verify_step nr m vh) + snd (verify_step nr m vh) + length ms"
    by (rule Cons.IH)
  with verify_step_sum [of nr m vh] show ?case by simp
qed

lemma verify_citations_sum:
  "fst (verify_citations ms resume) + snd (verify_citations ms resume) \<le> length ms"
  using verify_loop_sum [of "normalize_text resume" ms "(0, 0)"] by (simp add: verify_citations_def)

lemma jd_requirements_points_bounds:
  "0 \<le> jd_requirements_points c resume \<and> jd_requirements_points c resume \<le> 30"
proof -
  let ?ms = "jd_requirement_matches c"
  have "fst (verify_citations ?ms resume) \<le> length ?ms"
    using verify_citations_sum [of "jd_requirement_matches c" resume] by simp
  then have le: "(of_nat (fst (verify_citations ?ms resume)) :: rat) \<le> of_nat (length ?ms)"
    by simp
  show ?thesis
  proof (cases "0 < length ?ms \<and> resume \<noteq> []")
    case True
    then have pos: "(0::rat) < of_nat (length ?ms)" by simp
    have "0 \<le> (of_nat (fst (verify_citations ?ms resume)) :: rat) / of_nat (length ?ms) * 30
          \<and> (of_nat (fst (verify_citations ?ms resume)) :: rat) / of_nat (length ?ms) * 30 \<le> 30"
      using le pos by (intro ratio_scaled_bounds) simp_all
    then show ?thesis using True
      unfolding jd_requirements_points_def Let_def by simp
  next
    case False
    then show ?thesis by (auto simp add: jd_requirements_points_def Let_def)
  qed
qed

lemma experience_points_bounds:
  assumes "0 \<le> total_years_experience c"
  shows "0 \<le> experience_points c m \<and> experience_points c m \<le> 20"
proof (cases "m \<le> total_years_experience c")
  case True
  then show ?thesis by (simp add: experience_points_def)
next
  case False
  then have lt: "total_years_experience c < m" by simp
  have pos: "0 < max m 1" by simp
  have "total_years_experience c \<le> max m 1" using lt by simp
  with assms have "0 \<le> total_years_experience c / max m 1 * 20
          \<and> total_years_experience c / max m 1 * 20 \<le> 20"
    using pos by (intro ratio_scaled_bounds) simp_all
  then show ?thesis using False unfolding experience_points_def by simp
qed

lemma impact_points_bounds:
  assumes "0 \<le> metrics_bullet_count c"
  shows "0 \<le> impact_points c \<and> impact_points c \<le> 10"
  using assms by (simp add: impact_points_def)

subsection \<open>Rounding\<close>

lemma py_round_low: "x - of_int \<lfloor>x\<rfloor> < 1 / 2 \<Longrightarrow> py_round x = \<lfloor>x\<rfloor>"
  by (simp add: py_round_def Let_def)

lemma py_round_high: "1 / 2 < x - of_int \<lfloor>x\<rfloor> \<Longrightarrow> py_round x = \<lfloor>x\<rfloor> + 1"
  by (simp add: py_round_def Let_def)

lemma py_round_tie:
  "x - of_int \<lfloor>x\<rfloor> = 1 / 2 \<Longrightarrow> py_round x = (if even \<lfloor>x\<rfloor> then \<lfloor>x\<rfloor> else \<lfloor>x\<rfloor> + 1)"
  by (simp add: py_round_def Let_def)

lemma py_round_floor: "py_round x = \<lfloor>x\<rfloor> \<or> py_round x = \<lfloor>x\<rfloor> + 1"
  using py_round_low [of x] py_round_high [of x] py_round_tie [of x]
  by (cases "x - of_int \<lfloor>x\<rfloor> < 1 / 2"; cases "1 / 2 < x - of_int \<lfloor>x\<rfloor>") auto

lemma py_round_near: "\<bar>x - of_int (py_round x)\<bar> \<le> 1 / 2"
proof -
  define d where "d = x - of_int \<lfloor>x\<rfloor>"
  have d: "0 \<le> d" "d < 1" unfolding d_def by linarith+
  consider "d < 1 / 2" | "1 / 2 < d" | "d = 1 / 2" by linarith
  then show ?thesis
  proof cases
    case 1
    then have "py_round x = \<lfloor>x\<rfloor>" unfolding d_def by (rule py_round_low)
    with 1 d show ?thesis by (simp add: d_def)
  next
    case 2
    then have "py_round x = \<lfloor>x\<rfloor> + 1" unfolding d_def by (rule py_round_high)
    with 2 d show ?thesis by (simp add: d_def)
  next
    case 3
    have "py_round x = \<lfloor>x\<rfloor> \<or> py_round x = \<lfloor>x\<rfloor> + 1" by (rule py_round_floor)
    with 3 show ?thesis by (auto simp: d_def)
  qed
qed

lemma py_round_mono:
  assumes "x \<le> y"
  shows "py_round x \<le> py_round y"
proof (cases "\<lfloor>x\<rfloor> = \<lfloor>y\<rfloor>")
  case True
  define f where "f = \<lfloor>y\<rfloor>"
  have fx: "\<lfloor>x\<rfloor> = f" using True by (simp add: f_def)
  have le: "x - of_int f \<le> y - of_int f" using assms by simp
  consider "y - of_int f < 1 / 2" | "1 / 2 < x - of_int f"
    | "x - of_int f \<le> 1 / 2" "1 / 2 \<le> y - of_int f"
    by (cases "y - of_int f < 1 / 2"; cases "1 / 2 < x - of_int f") auto
  then show ?thesis
  proof cases
    case 1
    with le have "x - of_int f < 1 / 2" by linarith
    with 1 have "py_round x = f" "py_round y = f"
      using py_round_low [of x] py_round_low [of y] by (simp_all add: fx f_def [symmetric])
    then show ?thesis by simp
  next
    case 2
    with le have "1 / 2 < y - of_int f" by linarith
    with 2 have "py_round x = f + 1" "py_round y = f + 1"
      using py_round_high [of x] py_round_high [of y] by (simp_all add: fx f_def [symmetric])
    then show ?thesis by simp
  next
    case 3
    show ?thesis
    proof (cases "x - of_int f = 1 / 2 \<and> y - of_int f = 1 / 2")
      case True
      then have "x = y" by simp
      then show ?thesis by simp
    next
      case False
      then have "x - of_int f < 1 / 2 \<or> 1 / 2 < y - of_int f" using 3 by linarith
      then show ?thesis
      proof
        assume "x - of_int f < 1 / 2"
        then have "py_round x = f" using py_round_low [of x] by (simp add: fx)
        moreover have "py_round y = f \<or> py_round y = f + 1"
          using py_round_floor [of y] by (simp add: f_def)
        ultimately show ?thesis by auto
      next
        assume "1 / 2 < y - of_int f"
        then have "py_round y = f + 1" using py_round_high [of y] by (simp add: f_def)
        moreover have "py_round x = f \<or> py_round x = f + 1"
          using py_round_floor [of x] by (simp add: fx)
        ultimately show ?thesis by auto
      qed
    qed
  qed
next
  case False
  moreover have "\<lfloor>x\<rfloor> \<le> \<lfloor>y\<rfloor>" using assms by (rule floor_mono)
  ultimately have "\<lfloor>x\<rfloor> + 1 \<le> \<lfloor>y\<rfloor>" by simp
  with py_round_floor [of x] py_round_floor [of y] show ?thesis by linarith
qed

lemma py_round_of_int: "py_round (of_int n) = n"
  by (simp add: py_round_def)

lemma py_round_bounds:
  assumes "0 \<le> x" and "x \<le> 100"
  shows "0 \<le> py_round x \<and> py_round x \<le> 100"
proof -
  have "py_round (of_int 0) \<le> py_round x" using assms(1) by (intro py_round_mono) simp
  moreover have "py_round x \<le> py_round (of_int 100)" using assms(2) by (intro py_round_mono) simp
  ultimately show ?thesis unfolding py_round_of_int by simp
qed

lemma bucket_iff:
  "(bucket s = ''shortlisted'' \<longleftrightarrow> 80 \<le> s) \<and>
   (bucket s = ''review'' \<longleftrightarrow> 60 \<le> s \<and> s < 80) \<and>
   (bucket s = ''rejected'' \<longleftrightarrow> s < 60)"
  by (simp add: bucket_def)


subsection \<open>Score range and status buckets\<close>

text \<open>
  Claim C1. For a candidate whose years of experience, skill years and bullet count are
  not negative, and a minimum experience that is not negative, the score returned by
  \<^const>\<open>calculate_deterministic_score\<close> lies between 0 and 100, and the status is
  \<^verbatim>\<open>shortlisted\<close> exactly from 80 up, \<^verbatim>\<open>review\<close> exactly from 60 to 79 and
  \<^verbatim>\<open>rejected\<close> exactly below 60.
\<close>

theorem score_in_range_and_status_by_threshold:
  assumes "0 \<le> total_years_experience c"
    and "\<forall>y \<in> snd ` set (skills_with_years c). 0 \<le> y"
    and "0 \<le> metrics_bullet_count c"
    and "0 \<le> min_experience"
  shows "(let r = calculate_deterministic_score c required_skills min_experience raw_resume_text in
          0 \<le> final_score r \<and> final_score r \<le> 100
          \<and> (status r = ''shortlisted'' \<longleftrightarrow> 80 \<le> final_score r)
          \<and> (status r = ''review'' \<longleftrightarrow> 60 \<le> final_score r \<and> final_score r < 80)
          \<and> (status r = ''rejected'' \<longleftrightarrow> final_score r < 60))"
proof -
  define raw where "raw = raw_score c required_skills min_experience raw_resume_text"
  have "0 \<le> raw \<and> raw \<le> 100"
    using skill_depth_points_bounds [OF assms(2), of required_skills min_experience]
      jd_requirements_points_bounds [of c raw_resume_text]
      experience_points_bounds [OF assms(1), of min_experience]
      impact_points_bounds [OF assms(3)]
    unfolding raw_def raw_score_def by linarith
  then have "0 \<le> py_round raw \<and> py_round raw \<le> 100"
    by (simp add: py_round_bounds)
  then show ?thesis
    using bucket_iff [of "py_round raw"]
    by (simp add: calculate_deterministic_score_def Let_def raw_def)
qed

theorem score_in_range_and_status_by_threshold_witness:
  "0 \<le> total_years_experience perfect_candidate
   \<and> list_all (\<lambda>y. 0 \<le> y) (map snd (skills_with_years perfect_candidate))
   \<and> 0 \<le> metrics_bullet_count perfect_candidate
   \<and> (0::rat) \<le> 3
   \<and> (let r = calculate_deterministic_score perfect_candidate
                [''python'', ''fastapi'', ''postgresql''] 3 perfect_resume in
          0 \<le> final_score r \<and> final_score r \<le> 100
          \<and> (status r = ''shortlisted'' \<longleftrightarrow> 80 \<le> final_score r)
          \<and> (status r = ''review'' \<longleftrightarrow> 60 \<le> final_score r \<and> final_score r < 80)
          \<and> (status r = ''rejected'' \<longleftrightarrow> final_score r < 60))"
proof -
  have h1: "0 \<le> total_years_experience perfect_candidate"
    by (simp add: perfect_candidate_def)
  have h2: "\<forall>y \<in> snd ` set (skills_with_years perfect_candidate). 0 \<le> y"
    by (simp add: perfect_candidate_def)
  have h3: "0 \<le> metrics_bullet_count perfect_candidate"
    by (simp add: perfect_candidate_def)
  have h4: "(0::rat) \<le> 3" by simp
  have h2': "list_all (\<lambda>y. 0 \<le> y) (map snd (skills_with_years perfect_candidate))"
    by (simp add: perfect_candidate_def)
  show ?thesis
    using h1 h2' h3 h4
      score_in_range_and_status_by_threshold [OF h1 h2 h3 h4,
        of "[''python'', ''fastapi'', ''postgresql'']" perfect_resume]
    by simp
qed

subsection \<open>Fuzzy matcher and knockout membership test\<close>

lemma lower_char_idem: "lower_char (lower_char c) = lower_char c"
proof (cases "65 \<le> (of_char c :: nat) \<and> (of_char c :: nat) \<le> 90")
  case True
  then have "(of_char (char_of (of_char c + 32 :: nat)) :: nat) = of_char c + 32"
    by simp
  with True show ?thesis by (simp add: lower_char_def Let_def)
next
  case False
  then show ?thesis by (auto simp: lower_char_def Let_def)
qed

lemma find_None_none: "find P xs = None \<longleftrightarrow> (\<forall>x \<in> set xs. \<not> P x)"
  by (induction xs) auto

lemma fuzzy_match_skill_found:
  "fst (fuzzy_match_skill s m) \<noteq> None \<longleftrightarrow>
     (\<exists>k \<in> fst ` set m. lower s = k \<or> sublist (lower s) k \<or> sublist k (lower s))"
proof (cases "map_of m (lower s)")
  case (Some y)
  then have "(lower s, y) \<in> set m" by (rule map_of_SomeD)
  then have "lower s \<in> fst ` set m" by force
  with Some show ?thesis by (auto simp: fuzzy_match_skill_def)
next
  case None
  then have notin: "lower s \<notin> fst ` set m" by (simp add: map_of_eq_None_iff)
  let ?P = "\<lambda>(key, yrs :: rat). sublist (lower s) key \<or> sublist key (lower s)"
  show ?thesis
  proof (cases "find ?P m")
    case N: None
    then have "\<forall>x \<in> set m. \<not> ?P x" by (simp add: find_None_none)
    then have "\<not> (\<exists>k \<in> fst ` set m. sublist (lower s) k \<or> sublist k (lower s))" by force
    with None N notin show ?thesis by (auto simp: fuzzy_match_skill_def)
  next
    case (Some p)
    then have pm: "p \<in> set m \<and> ?P p" by (rule find_Some_mem)
    obtain key yrs where p: "p = (key, yrs)" by (cases p)
    have "key \<in> fst ` set m" using pm p by force
    moreover have "sublist (lower s) key \<or> sublist key (lower s)" using pm p by simp
    ultimately have "\<exists>k \<in> fst ` set m. sublist (lower s) k \<or> sublist k (lower s)"
      by blast
    with None Some show ?thesis by (cases p) (auto simp: fuzzy_match_skill_def)
  qed
qed

lemma update_keys: "fst ` set (AList.update k v al) = insert k (fst ` set al)"
  by (induction al) auto

lemma foldl_update_keys:
  "fst ` set (foldl (\<lambda>d (k, v). AList.update (f k) v d) acc sk) = fst ` set acc \<union> f ` fst ` set sk"
proof (induction sk arbitrary: acc)
  case Nil
  then show ?case by simp
next
  case (Cons p sk)
  obtain k v where p: "p = (k, v)" by (cases p)
  show ?case by (simp add: p Cons.IH update_keys)
qed

lemma lower_keys_keys: "fst ` set (lower_keys sk) = candidate_skill_keys sk"
  using foldl_update_keys [of lower "[]" sk] by (simp add: lower_keys_def candidate_skill_keys_def)


text \<open>The two call sites as the pipeline feeds them: the scorer looks the lower-cased
  requirement up in \<^const>\<open>lower_keys\<close> of the candidate's skills, the knockout filter
  tests it against \<^const>\<open>candidate_skill_keys\<close> of the same skills.\<close>

lemma call_sites_agree:
  "skill_present (lower s) (candidate_skill_keys sk)
     \<longleftrightarrow> fst (fuzzy_match_skill (lower s) (lower_keys sk)) \<noteq> None"
proof -
  have idem: "lower (lower s) = lower s"
    by (simp add: lower_def lower_char_idem)
  have "fst (fuzzy_match_skill (lower s) (lower_keys sk)) \<noteq> None \<longleftrightarrow>
          (\<exists>k \<in> candidate_skill_keys sk. lower s = k \<or> sublist (lower s) k \<or> sublist k (lower s))"
    using fuzzy_match_skill_found [of "lower s" "lower_keys sk"]
    by (simp add: idem lower_keys_keys)
  also have "\<dots> \<longleftrightarrow> (\<exists>k \<in> candidate_skill_keys sk. sublist (lower s) k \<or> sublist k (lower s))"
    by auto
  finally show ?thesis by (simp add: skill_present_def)
qed

text \<open>
  Claim C7. For a lower-cased required skill and a skill mapping whose keys are
  lower-cased, the membership test of the knockout filter (some key contains the skill
  or is contained in it) succeeds exactly when \<^const>\<open>fuzzy_match_skill\<close> returns a
  matched key on the same skill and mapping.
\<close>

theorem knockout_membership_agrees_with_fuzzy_match:
  assumes "lower s = s" and "\<forall>k \<in> fst ` set m. lower k = k"
  shows "skill_present s (candidate_skill_keys m) \<longleftrightarrow> fst (fuzzy_match_skill s m) \<noteq> None"
proof -
  have keys: "candidate_skill_keys m = fst ` set m"
    using assms(2) by (force simp: candidate_skill_keys_def)
  have "fst (fuzzy_match_skill s m) \<noteq> None \<longleftrightarrow>
          (\<exists>k \<in> fst ` set m. s = k \<or> sublist s k \<or> sublist k s)"
    using fuzzy_match_skill_found [of s m] by (simp add: assms(1))
  also have "\<dots> \<longleftrightarrow> (\<exists>k \<in> fst ` set m. sublist s k \<or> sublist k s)"
    by auto
  finally show ?thesis by (simp add: skill_present_def keys)
qed


theorem knockout_membership_agrees_with_fuzzy_match_witness:
  "lower ''python'' = ''python''
   \<and> list_all (\<lambda>k. lower k = k) (map fst [(''python 3'', 4 :: rat), (''docker ce'', 1)])
   \<and> skill_present ''python'' (candidate_skill_keys [(''python 3'', 4), (''docker ce'', 1)])
   \<and> fst (fuzzy_match_skill ''python'' [(''python 3'', 4), (''docker ce'', 1)]) \<noteq> None"
proof -
  have h1: "lower ''python'' = ''python''" by code_simp
  have h2: "\<forall>k \<in> fst ` set [(''python 3'', 4 :: rat), (''docker ce'', 1)]. lower k = k"
    by code_simp
  have h2': "list_all (\<lambda>k. lower k = k) (map fst [(''python 3'', 4 :: rat), (''docker ce'', 1)])"
    by code_simp
  have found: "fst (fuzzy_match_skill ''python'' [(''python 3'', 4), (''docker ce'', 1)]) \<noteq> None"
    by code_simp
  show ?thesis
    using h1 h2' found knockout_membership_agrees_with_fuzzy_match [OF h1 h2]
    by simp
qed

subsection \<open>Knockout decision\<close>

lemma half_coverage:
  fixes m n :: nat
  assumes "0 < n"
  shows "(of_nat m :: rat) / of_nat n < 1 / 2 \<longleftrightarrow> 2 * m < n"
proof -
  have "(of_nat m :: rat) / of_nat n < 1 / 2 \<longleftrightarrow> (of_nat (2 * m) :: rat) < of_nat n"
    using assms by (simp add: field_simps)
  also have "\<dots> \<longleftrightarrow> 2 * m < n" by (rule of_nat_less_iff)
  finally show ?thesis .
qed


text \<open>
  Claim C4. A candidate is knocked out exactly when the years of experience are below
  the minimum less half a year, or that rule did not fire, there are required skills,
  and the share of required skills found among the candidate's skill keys is strictly
  below one half.
\<close>

theorem knockout_decision:
  "fst (knockout_filter years sk required_skills min_experience) \<longleftrightarrow>
     years < min_experience - 1 / 2
     \<or> (\<not> years < min_experience - 1 / 2 \<and> required_skills \<noteq> []
        \<and> skill_coverage sk required_skills < 1 / 2)"
  by (simp add: knockout_filter_def Let_def skill_coverage_def skill_present_def
      candidate_skill_keys_def)

text \<open>Exactly half of the required skills found: the candidate passes.\<close>

theorem knockout_decision_witness:
  "skill_coverage [(''Python 3'', 3)] [''python'', ''rust''] = 1 / 2
   \<and> \<not> fst (knockout_filter 3 [(''Python 3'', 3)] [''python'', ''rust''] 3)
   \<and> fst (knockout_filter 3 [(''Python 3'', 3)] [''python'', ''rust'', ''go''] 3)
   \<and> fst (knockout_filter (1 / 2) [(''Python 3'', 3)] [''python''] 5)"
proof -
  have c1: "skill_coverage [(''Python 3'', 3)] [''python'', ''rust''] = 1 / 2" by code_simp
  have c2: "skill_coverage [(''Python 3'', 3)] [''python'', ''rust'', ''go''] = 1 / 3" by code_simp
  show ?thesis
    using c1 c2
      knockout_decision [of 3 "[(''Python 3'', 3)]" "[''python'', ''rust'']" 3]
      knockout_decision [of 3 "[(''Python 3'', 3)]" "[''python'', ''rust'', ''go'']" 3]
      knockout_decision [of "1 / 2" "[(''Python 3'', 3)]" "[''python'']" 5]
    by simp
qed

subsection \<open>Citation verifier\<close>

lemma verify_step_counts:
  "verify_step (normalize_text t) m (v, h) =
     (v + (if citation_verified t m then 1 else 0),
      h + (if citation_hallucinated t m then 1 else 0))"
  by (cases "citation_quote m")
     (auto simp: verify_step_def citation_verified_def citation_hallucinated_def truthy_def)

lemma verify_loop_counts:
  "verify_loop (normalize_text t) ms (v, h) =
     (v + length (filter (citation_verified t) ms),
      h + length (filter (citation_hallucinated t) ms))"
proof (induction ms arbitrary: v h)
  case Nil
  then show ?case by simp
next
  case (Cons m ms)
  show ?case by (simp add: verify_step_counts Cons.IH)
qed

lemma verify_citations_counts:
  assumes "t \<noteq> []"
  shows "verify_citations ms t =
     (length (filter (citation_verified t) ms), length (filter (citation_hallucinated t) ms))"
proof (cases ms)
  case Nil
  then show ?thesis by (simp add: verify_citations_def)
next
  case (Cons m rest)
  then have "verify_citations ms t = verify_loop (normalize_text t) ms (0, 0)"
    using assms by (simp add: verify_citations_def)
  then show ?thesis by (simp only: verify_loop_counts) simp
qed

lemma disjoint_filters:
  "length (filter P xs) + length (filter (\<lambda>x. Q x \<and> \<not> P x) xs) \<le> length xs"
  by (induction xs) auto

text \<open>
  Claim C2, as the code has it. For a non-empty resume text, the verifier counts as
  verified exactly the matches that are claimed met and whose citation is a non-null,
  non-empty string whose normal form occurs in the normalized resume text; it counts as
  hallucinations exactly the matches claimed met that are not verified; matches not
  claimed met count as neither; so verified plus hallucinations is at most the total.
\<close>

theorem verifier_counts:
  assumes "resume_text \<noteq> []"
  shows "fst (verify_citations ms resume_text) = length (filter (citation_verified resume_text) ms)
       \<and> snd (verify_citations ms resume_text)
           = length (filter (\<lambda>m. is_met m \<and> \<not> citation_verified resume_text m) ms)
       \<and> verify_citations (filter is_met ms) resume_text = verify_citations ms resume_text
       \<and> fst (verify_citations ms resume_text) + snd (verify_citations ms resume_text) \<le> length ms"
proof -
  have c: "\<And>xs. verify_citations xs resume_text =
     (length (filter (citation_verified resume_text) xs),
      length (filter (citation_hallucinated resume_text) xs))"
    using assms by (rule verify_citations_counts)
  have h: "citation_hallucinated resume_text = (\<lambda>m. is_met m \<and> \<not> citation_verified resume_text m)"
    by (simp add: citation_hallucinated_def fun_eq_iff)
  have v: "(\<lambda>m. is_met m \<and> citation_verified resume_text m) = citation_verified resume_text"
    by (auto simp: citation_verified_def fun_eq_iff)
  have m: "verify_citations (filter is_met ms) resume_text = verify_citations ms resume_text"
    by (simp add: c h v conj_commute)
  show ?thesis
    using disjoint_filters [of "citation_verified resume_text" ms is_met] m
    by (simp add: c h)
qed

theorem verifier_counts_witness:
  "perfect_resume \<noteq> []
   \<and> verify_citations (jd_requirement_matches perfect_candidate
                          @ [unmet_match, invented_quote_match]) perfect_resume = (1, 1)
   \<and> length (filter (citation_verified perfect_resume)
         (jd_requirement_matches perfect_candidate @ [unmet_match, invented_quote_match])) = 1"
proof -
  have h: "perfect_resume \<noteq> []" by (simp add: perfect_resume_def)
  have e: "verify_citations (jd_requirement_matches perfect_candidate
                          @ [unmet_match, invented_quote_match]) perfect_resume = (1, 1)"
    by code_simp
  show ?thesis
    using h e verifier_counts [OF h,
        of "jd_requirement_matches perfect_candidate @ [unmet_match, invented_quote_match]"]
    by simp
qed

text \<open>The claim as first stated asks only for a non-null citation. At a match claimed
  met with the empty string as citation the stated condition holds, and the verifier
  counts no verified match and one hallucination.\<close>

theorem empty_citation_not_verified_counterexample:
  "claimed_verified ''resume text'' empty_quote_match
   \<and> verify_citations [empty_quote_match] ''resume text'' = (0, 1)"
  by code_simp

text \<open>
  Claim C10. A match claimed met whose citation is the empty string adds one to the
  hallucination count and nothing to the verified count, wherever it stands in the
  list, although the empty normalized citation occurs in every normalized resume text.
\<close>

theorem empty_citation_is_hallucination:
  assumes "resume_text \<noteq> []" and "is_met m" and "citation_quote m = Some []"
  shows "fst (verify_citations (pre @ m # post) resume_text)
           = fst (verify_citations (pre @ post) resume_text)
       \<and> snd (verify_citations (pre @ m # post) resume_text)
           = snd (verify_citations (pre @ post) resume_text) + 1
       \<and> sublist (normalize_text (the (citation_quote m))) (normalize_text resume_text)"
proof -
  have nv: "\<not> citation_verified resume_text m"
    using assms(3) by (simp add: citation_verified_def)
  have hl: "citation_hallucinated resume_text m"
    using assms(2) nv by (simp add: citation_hallucinated_def)
  have "normalize_text [] = []" by (simp add: normalize_text_def split_whitespace_def lower_def)
  then have "sublist (normalize_text (the (citation_quote m))) (normalize_text resume_text)"
    using assms(3) by simp
  then show ?thesis
    using nv hl by (simp add: verify_citations_counts [OF assms(1)])
qed

theorem empty_citation_is_hallucination_witness:
  "perfect_resume \<noteq> [] \<and> is_met empty_quote_match
   \<and> citation_quote empty_quote_match = Some []
   \<and> verify_citations (jd_requirement_matches perfect_candidate @ [unmet_match]) perfect_resume
       = (1, 0)
   \<and> verify_citations (jd_requirement_matches perfect_candidate @ empty_quote_match # [unmet_match])
         perfect_resume = (1, 1)"
proof -
  have h1: "perfect_resume \<noteq> []" by (simp add: perfect_resume_def)
  have h2: "is_met empty_quote_match" by (simp add: empty_quote_match_def)
  have h3: "citation_quote empty_quote_match = Some []" by (simp add: empty_quote_match_def)
  have e: "verify_citations (jd_requirement_matches perfect_candidate @ [unmet_match]) perfect_resume
       = (1, 0)"
    by code_simp
  show ?thesis
    using h1 h2 h3 e
      empty_citation_is_hallucination [OF h1 h2 h3,
        of "jd_requirement_matches perfect_candidate" "[unmet_match]"]
    by (simp add: prod_eq_iff)
qed

subsection \<open>Rounding of the final score\<close>

lemma py_round_tie_even:
  assumes "\<bar>x - of_int (py_round x)\<bar> = 1 / 2"
  shows "even (py_round x)"
proof -
  define d where "d = x - of_int \<lfloor>x\<rfloor>"
  have d: "0 \<le> d" "d < 1" unfolding d_def by linarith+
  consider "d < 1 / 2" | "1 / 2 < d" | "d = 1 / 2" by linarith
  then show ?thesis
  proof cases
    case 1
    then have "py_round x = \<lfloor>x\<rfloor>" unfolding d_def by (rule py_round_low)
    with 1 d assms show ?thesis by (simp add: d_def)
  next
    case 2
    then have "py_round x = \<lfloor>x\<rfloor> + 1" unfolding d_def by (rule py_round_high)
    with 2 d assms show ?thesis by (simp add: d_def)
  next
    case 3
    then have "py_round x = (if even \<lfloor>x\<rfloor> then \<lfloor>x\<rfloor> else \<lfloor>x\<rfloor> + 1)"
      unfolding d_def by (rule py_round_tie)
    then show ?thesis by (cases "even \<lfloor>x\<rfloor>") simp_all
  qed
qed

text \<open>With exact arithmetic the parametrised formulas are the idealised ones.\<close>

lemma exact_arith_ops:
  "fl_add exact_arith a b = a + b"
  "fl_mul exact_arith a b = a * b"
  "fl_div exact_arith a b = a / b"
  "fl_sum exact_arith xs = sum_list xs"
  by (simp_all add: exact_arith_def)

lemma skill_depth_loop_with_exact:
  "skill_depth_loop_with exact_arith rs csl eff = skill_depth_loop rs csl eff"
  by (induction rs) (simp_all add: exact_arith_ops split: prod.splits option.splits)

lemma raw_score_with_exact:
  "raw_score_with exact_arith c required_skills min_experience raw_resume_text
     = raw_score c required_skills min_experience raw_resume_text"
  by (simp add: raw_score_with_def raw_score_def skill_depth_points_with_def
      skill_depth_points_def jd_requirements_points_with_def jd_requirements_points_def
      experience_points_with_def experience_points_def impact_points_with_def
      impact_points_def skill_depth_loop_with_exact exact_arith_ops Let_def)

lemma final_score_with_exact:
  "final_score_with exact_arith c required_skills min_experience raw_resume_text
     = final_score (calculate_deterministic_score c required_skills min_experience raw_resume_text)"
  by (simp add: final_score_with_def raw_score_with_exact calculate_deterministic_score_def Let_def)

text \<open>Rounding inside the sum matters at a tie. For the candidate below the exact sum
  of the components is 52.5, which goes to 52; in binary64 the sum comes out one unit
  in the last place above 52.5 and the score is 53.\<close>

lemma near_tie_in_binary64:
  "raw_score near_tie_candidate [''python'', ''sql''] 3 near_tie_resume = 105 / 2
   \<and> final_score_with exact_arith near_tie_candidate [''python'', ''sql''] 3 near_tie_resume = 52
   \<and> raw_score_with binary64_arith near_tie_candidate [''python'', ''sql''] 3 near_tie_resume
       = 105 / 2 + pow2 (- 47)
   \<and> final_score_with binary64_arith near_tie_candidate [''python'', ''sql''] 3 near_tie_resume
       = 53"
proof -
  have exact: "raw_score near_tie_candidate [''python'', ''sql''] 3 near_tie_resume = 105 / 2"
    by code_simp
  have "py_round (105 / 2) = 52" by code_simp
  then have exact_score:
    "final_score_with exact_arith near_tie_candidate [''python'', ''sql''] 3 near_tie_resume = 52"
    by (simp add: final_score_with_def raw_score_with_exact exact)
  have sk: "skill_depth_points_with binary64_arith near_tie_candidate [''python'', ''sql''] 3
            = 1876499844737707 / 70368744177664"
    by code_simp
  have jd: "jd_requirements_points_with binary64_arith near_tie_candidate near_tie_resume = 45 / 2"
    by code_simp
  have ex: "experience_points_with binary64_arith near_tie_candidate 3
            = 3752999689475413 / 1125899906842624"
    by code_simp
  have im: "impact_points_with binary64_arith near_tie_candidate = 0"
    by code_simp
  have "fl_add binary64_arith
          (fl_add binary64_arith
             (fl_add binary64_arith (1876499844737707 / 70368744177664) (45 / 2))
             (3752999689475413 / 1125899906842624)) 0
        = 105 / 2 + pow2 (- 47)"
    by code_simp
  then have raw:
    "raw_score_with binary64_arith near_tie_candidate [''python'', ''sql''] 3 near_tie_resume
       = 105 / 2 + pow2 (- 47)"
    by (simp only: raw_score_with_def sk jd ex im)
  have "py_round (105 / 2 + pow2 (- 47)) = 53" by code_simp
  then have score:
    "final_score_with binary64_arith near_tie_candidate [''python'', ''sql''] 3 near_tie_resume
       = 53"
    by (simp only: final_score_with_def raw)
  from exact exact_score raw score show ?thesis by blast
qed

text \<open>
  Claim C5, as the code has it. The final score is the sum of the four weighted
  components, as the float operations of the runtime produce that sum, rounded to the
  nearest integer, and a computed sum exactly halfway between two integers goes to the
  even one: 79.5 gives 80, and 2.5 gives 2. The statement holds whatever the float
  operations \<open>F\<close> are.
\<close>

theorem final_score_rounds_half_to_even:
  "(let raw = raw_score_with F c required_skills min_experience raw_resume_text;
        s = final_score_with F c required_skills min_experience raw_resume_text
    in \<bar>raw - of_int s\<bar> \<le> 1 / 2 \<and> (\<bar>raw - of_int s\<bar> = 1 / 2 \<longrightarrow> even s))"
proof -
  define raw where "raw = raw_score_with F c required_skills min_experience raw_resume_text"
  have s: "final_score_with F c required_skills min_experience raw_resume_text = py_round raw"
    by (simp add: final_score_with_def raw_def)
  have "\<bar>raw - of_int (py_round raw)\<bar> \<le> 1 / 2" by (rule py_round_near)
  moreover have "\<bar>raw - of_int (py_round raw)\<bar> = 1 / 2 \<longrightarrow> even (py_round raw)"
    using py_round_tie_even [of raw] by blast
  ultimately show ?thesis
    unfolding Let_def s raw_def [symmetric] by blast
qed

theorem final_score_rounds_half_to_even_witness:
  "raw_score_with binary64_arith tie_candidate [''python''] 8 [] = 5 / 2
   \<and> final_score_with binary64_arith tie_candidate [''python''] 8 [] = 2
   \<and> py_round (159 / 2) = 80"
proof -
  have r: "raw_score_with binary64_arith tie_candidate [''python''] 8 [] = 5 / 2" by code_simp
  have "py_round (5 / 2) = 2" by code_simp
  then have f: "final_score_with binary64_arith tie_candidate [''python''] 8 [] = 2"
    by (simp only: final_score_with_def r)
  have p: "py_round (159 / 2) = 80" by code_simp
  show ?thesis
    using r f p
      final_score_rounds_half_to_even [of binary64_arith tie_candidate "[''python'']" 8 "[]"]
    by simp
qed

text \<open>The claim as first stated sends every tie up. Here the sum is 2.5, in exact
  arithmetic and in binary64 alike; rounding the tie up (\<^const>\<open>round\<close>) gives 3, and the
  final score is 2.\<close>

theorem tie_not_rounded_up_counterexample:
  "raw_score tie_candidate [''python''] 8 [] = 5 / 2
   \<and> round (raw_score tie_candidate [''python''] 8 []) = 3
   \<and> final_score (calculate_deterministic_score tie_candidate [''python''] 8 []) = 2
   \<and> raw_score_with binary64_arith tie_candidate [''python''] 8 [] = 5 / 2
   \<and> final_score_with binary64_arith tie_candidate [''python''] 8 [] = 2"
proof -
  have a: "raw_score tie_candidate [''python''] 8 [] = 5 / 2
   \<and> round (raw_score tie_candidate [''python''] 8 []) = 3
   \<and> final_score (calculate_deterministic_score tie_candidate [''python''] 8 []) = 2"
    by code_simp
  have r: "raw_score_with binary64_arith tie_candidate [''python''] 8 [] = 5 / 2" by code_simp
  have "py_round (5 / 2) = 2" by code_simp
  then have f: "final_score_with binary64_arith tie_candidate [''python''] 8 [] = 2"
    by (simp only: final_score_with_def r)
  from a r f show ?thesis by blast
qed

subsection \<open>Breakdown against final score\<close>

lemma py_round1_near: "\<bar>py_round1 x - x\<bar> \<le> 1 / 20"
proof -
  define n where "n = py_round (x * 10)"
  have "\<bar>x * 10 - of_int n\<bar> \<le> 1 / 2" unfolding n_def by (rule py_round_near)
  then have "\<bar>of_int n / 10 - x\<bar> \<le> 1 / 20" by linarith
  then show ?thesis by (simp add: py_round1_def n_def)
qed

lemma near_rounds_differ_by_one:
  assumes "\<bar>y - x\<bar> \<le> 1 / 5"
  shows "\<bar>py_round y - py_round x\<bar> \<le> 1"
proof -
  have "\<bar>x - of_int (py_round x)\<bar> \<le> 1 / 2" "\<bar>y - of_int (py_round y)\<bar> \<le> 1 / 2"
    by (rule py_round_near)+
  with assms have "\<bar>(of_int (py_round y) :: rat) - of_int (py_round x)\<bar> < 2"
    by linarith
  then have "\<bar>(of_int (py_round y - py_round x) :: rat)\<bar> < of_int 2" by simp
  then have "\<bar>py_round y - py_round x\<bar> < 2"
    unfolding of_int_abs [symmetric] of_int_less_iff .
  then show ?thesis by simp
qed

text \<open>
  Claim C8. The four components of the breakdown, each rounded to one decimal, summed
  and rounded, differ from the final score by at most one.
\<close>

theorem breakdown_sum_within_one_of_final_score:
  "(let r = calculate_deterministic_score c required_skills min_experience raw_resume_text;
        b = breakdown r
    in \<bar>py_round (skill_depth b + jd_requirements b + experience b + impact b) - final_score r\<bar> \<le> 1)"
proof -
  let ?a = "skill_depth_points c required_skills min_experience"
  let ?b = "jd_requirements_points c raw_resume_text"
  let ?c = "experience_points c min_experience"
  let ?d = "impact_points c"
  have "\<bar>py_round1 ?a - ?a\<bar> \<le> 1 / 20" "\<bar>py_round1 ?b - ?b\<bar> \<le> 1 / 20"
       "\<bar>py_round1 ?c - ?c\<bar> \<le> 1 / 20" "\<bar>py_round1 ?d - ?d\<bar> \<le> 1 / 20"
    by (rule py_round1_near)+
  then have "\<bar>(py_round1 ?a + py_round1 ?b + py_round1 ?c + py_round1 ?d) - (?a + ?b + ?c + ?d)\<bar> \<le> 1 / 5"
    by linarith
  then have "\<bar>py_round (py_round1 ?a + py_round1 ?b + py_round1 ?c + py_round1 ?d)
             - py_round (?a + ?b + ?c + ?d)\<bar> \<le> 1"
    by (rule near_rounds_differ_by_one)
  then show ?thesis
    by (simp add: calculate_deterministic_score_def Let_def raw_score_def)
qed

subsection \<open>Batch ranking and shortlist\<close>

lemma sort_desc_sorted: "sorted_wrt (\<lambda>a b. key b \<le> key a) (sort_desc key xs)"
proof -
  have "sorted (map (\<lambda>x. - key x) (sort_key (\<lambda>x. - key x) xs))" by (rule sorted_sort_key)
  then show ?thesis by (simp add: sort_desc_def sorted_map)
qed

lemma sort_desc_mset: "mset (sort_desc key xs) = mset xs"
  by (simp add: sort_desc_def)

lemma sort_desc_length: "length (sort_desc key xs) = length xs"
  by (simp add: sort_desc_def)

lemma top_10_percent_take:
  "top_10_percent xs = take (if length xs = 0 then 0 else max 1 (length xs div 10)) xs"
  by (simp add: top_10_percent_def)

lemma top_10_percent_length:
  "length (top_10_percent xs) = (if length xs = 0 then 0 else max 1 (length xs div 10))"
proof (cases "xs = []")
  case True
  then show ?thesis by (simp add: top_10_percent_def)
next
  case False
  then have "0 < length xs" by simp
  then have "max 1 (length xs div 10) \<le> length xs" by (simp add: Suc_leI)
  with False show ?thesis by (simp add: top_10_percent_def)
qed

text \<open>
  Claim C6. In every batch result, \<^verbatim>\<open>all_candidates\<close> holds the candidates sorted by
  score, highest first, and \<^verbatim>\<open>shortlisted\<close> is its prefix of length
  \<^verbatim>\<open>max(1, N // 10)\<close> when there are \<^verbatim>\<open>N > 0\<close> candidates and is empty when there are
  none. The first half is \<^verbatim>\<open>_build_results_payload\<close>, where a missing score sorts as 0;
  the second is the end of \<^verbatim>\<open>process_resumes_background\<close>.
\<close>

theorem batch_result_sorted_and_shortlisted:
  "(let r = build_results_payload j applicants;
        n = length (all_candidates r)
    in sorted_wrt (\<lambda>a b. score_or_zero b \<le> score_or_zero a) (all_candidates r)
       \<and> mset (all_candidates r) = mset applicants
       \<and> shortlisted r = take (if n = 0 then 0 else max 1 (n div 10)) (all_candidates r)
       \<and> length (shortlisted r) = (if n = 0 then 0 else max 1 (n div 10)))
   \<and> (let r = rank_candidates candidates;
          n = length (snd r)
      in sorted_wrt (\<lambda>a b. sc_match_score b \<le> sc_match_score a) (snd r)
         \<and> mset (snd r) = mset candidates
         \<and> fst r = take (if n = 0 then 0 else max 1 (n div 10)) (snd r)
         \<and> length (fst r) = (if n = 0 then 0 else max 1 (n div 10)))"
proof -
  have a: "all_candidates (build_results_payload j applicants) = sort_desc score_or_zero applicants"
    by (simp add: build_results_payload_def Let_def)
  have s: "shortlisted (build_results_payload j applicants)
           = top_10_percent (sort_desc score_or_zero applicants)"
    by (simp add: build_results_payload_def Let_def)
  have r: "rank_candidates candidates
           = (top_10_percent (sort_desc sc_match_score candidates), sort_desc sc_match_score candidates)"
    by (simp add: rank_candidates_def Let_def)
  show ?thesis
    unfolding Let_def a s r fst_conv snd_conv
    using sort_desc_sorted [of score_or_zero applicants] sort_desc_sorted [of sc_match_score candidates]
      top_10_percent_take [of "sort_desc score_or_zero applicants"]
      top_10_percent_take [of "sort_desc sc_match_score candidates"]
      top_10_percent_length [of "sort_desc score_or_zero applicants"]
      top_10_percent_length [of "sort_desc sc_match_score candidates"]
    by (simp add: sort_desc_mset)
qed


theorem batch_result_sorted_and_shortlisted_witness:
  "map applicant_name (all_candidates (build_results_payload backend_job
      [scored_applicant ''a'' (Some 40), scored_applicant ''b'' None,
       scored_applicant ''c'' (Some 90), scored_applicant ''d'' (Some 40)]))
     = [''c'', ''a'', ''d'', ''b'']
   \<and> map applicant_name (shortlisted (build_results_payload backend_job
      [scored_applicant ''a'' (Some 40), scored_applicant ''b'' None,
       scored_applicant ''c'' (Some 90), scored_applicant ''d'' (Some 40)]))
     = [''c'']"
proof -
  define r where "r = build_results_payload backend_job
      [scored_applicant ''a'' (Some 40), scored_applicant ''b'' None,
       scored_applicant ''c'' (Some 90), scored_applicant ''d'' (Some 40)]"
  have e: "map applicant_name (all_candidates r) = [''c'', ''a'', ''d'', ''b'']"
    unfolding r_def by code_simp
  then have "length (map applicant_name (all_candidates r)) = 4" by simp
  then have l: "length (all_candidates r) = 4" by simp
  have "shortlisted r
        = take (if length (all_candidates r) = 0 then 0
                else max 1 (length (all_candidates r) div 10)) (all_candidates r)"
    using batch_result_sorted_and_shortlisted [of backend_job
        "[scored_applicant ''a'' (Some 40), scored_applicant ''b'' None,
          scored_applicant ''c'' (Some 90), scored_applicant ''d'' (Some 40)]" "[]"]
    unfolding r_def Let_def by blast
  then have "shortlisted r = take 1 (all_candidates r)" by (simp add: l)
  then have "map applicant_name (shortlisted r) = take 1 (map applicant_name (all_candidates r))"
    by (simp add: take_map)
  then have "map applicant_name (shortlisted r) = [''c'']" by (simp add: e)
  with e show ?thesis unfolding r_def by simp
qed

subsection \<open>Knockout before scoring\<close>

text \<open>\<^const>\<open>screen_resume_background\<close> runs the knockout filter first and the scorer only
  on a candidate that passed; a knocked-out candidate is stored with score 0, status
  \<^verbatim>\<open>rejected\<close> and no breakdown.\<close>

lemma screen_resume_background_gates_scorer:
  "(Scorer \<in> set (fst (screen_resume_background c required_skills min_experience resume_text))
      \<longleftrightarrow> \<not> fst (knockout_filter (total_years_experience c) (skills_with_years c)
                   required_skills min_experience))
   \<and> hd (fst (screen_resume_background c required_skills min_experience resume_text)) = KnockoutFilter
   \<and> (fst (knockout_filter (total_years_experience c) (skills_with_years c)
             required_skills min_experience)
        \<longrightarrow> sc_match_score (snd (screen_resume_background c required_skills min_experience resume_text)) = 0
          \<and> sc_status (snd (screen_resume_background c required_skills min_experience resume_text)) = ''rejected''
          \<and> sc_breakdown (snd (screen_resume_background c required_skills min_experience resume_text)) = None)"
  by (simp add: screen_resume_background_def Let_def)

text \<open>\<^const>\<open>process_resume\<close> runs the scorer on every candidate and no knockout filter.\<close>

lemma process_resume_stages: "fst (process_resume c j resume_text) = [Scorer, Persist]"
  by (simp add: process_resume_def Let_def)

text \<open>
  Claim C3 says that every resume of a batch passes the knockout filter after the fact
  extraction and is scored only if it was not knocked out. The task that the bulk
  endpoint dispatches for each resume, \<^const>\<open>process_resume\<close>, has no knockout stage:
  the rookie candidate, whom the experience floor knocks out, is scored by it (6 points,
  with a breakdown), whereas \<^const>\<open>screen_resume_background\<close> stores score 0 for the same
  candidate without running the scorer.
\<close>

theorem process_resume_scores_knocked_out_candidate:
  "fst (knockout_filter (total_years_experience rookie_candidate)
          (skills_with_years rookie_candidate) [''Python''] 5)
   \<and> fst (process_resume rookie_candidate backend_job rookie_resume) = [Scorer, Persist]
   \<and> match_score (snd (process_resume rookie_candidate backend_job rookie_resume)) = Some 6
   \<and> applicant_breakdown (snd (process_resume rookie_candidate backend_job rookie_resume)) \<noteq> None
   \<and> fst (screen_resume_background rookie_candidate [''Python''] 5 rookie_resume)
       = [KnockoutFilter, Persist]
   \<and> sc_match_score (snd (screen_resume_background rookie_candidate [''Python''] 5 rookie_resume)) = 0"
  by code_simp

subsection \<open>Failure modes of the fact extraction\<close>

text \<open>A payload that can be sanitized: the years become floats, the missing fields get
  their defaults, and the entry of the matches that is not a \<^verbatim>\<open>dict\<close> is dropped.\<close>

lemma extraction_of_good_payload:
  "extract_candidate_facts strict_builtins True (Parsed good_payload) True =
     Inr [(''name'', PStr ''Dave''),
          (''total_years_experience'', PFloat 4),
          (''skills_with_years'', PDict [(''python'', PFloat 4)]),
          (''jd_requirement_matches'',
             PList [PDict [(''requirement'', PStr ''Must know Python''),
                           (''is_met'', PBool True), (''citation_quote'', PNone)]]),
          (''recent_job_titles'', PList []),
          (''metrics_bullet_count'', PInt 0),
          (''email'', PStr ''unknown@error.com''),
          (''phone'', PStr [])]"
  by code_simp

text \<open>
  Claim C9, as the code has it. With no model available, \<^const>\<open>extract_candidate_facts\<close>
  raises the service-unavailable error when \<^verbatim>\<open>fail_on_unavailable\<close> is true and returns
  the sentinel facts when it is false. With a model, a failed call, an unparsable
  payload and a payload whose sanitization raises all give the sentinel facts,
  whatever the flag. The function returns nothing else than that error, the sentinel,
  or completely sanitized data.
\<close>

theorem extraction_failure_modes:
  "extract_candidate_facts B False reply True = Inl AIServiceUnavailableError
   \<and> extract_candidate_facts B False reply False = Inr sentinel_facts
   \<and> extract_candidate_facts B True CallFailed flag = Inr sentinel_facts
   \<and> extract_candidate_facts B True Unparsable flag = Inr sentinel_facts
   \<and> (isl (try_extract B (Parsed v)) \<longrightarrow>
        extract_candidate_facts B True (Parsed v) flag = Inr sentinel_facts)
   \<and> (case extract_candidate_facts B available reply flag of
        Inl e \<Rightarrow> e = AIServiceUnavailableError \<and> \<not> available \<and> flag
      | Inr data \<Rightarrow>
          data = sentinel_facts
          \<or> (\<exists>d. available \<and> reply = Parsed (PDict d) \<and> sanitize B d = Inr data))"
proof -
  have a: "extract_candidate_facts B False reply True = Inl AIServiceUnavailableError"
    by (simp add: extract_candidate_facts_def)
  have b: "extract_candidate_facts B False reply False = Inr sentinel_facts"
    by (simp add: extract_candidate_facts_def)
  have c: "extract_candidate_facts B True CallFailed flag = Inr sentinel_facts"
    by (simp add: extract_candidate_facts_def try_extract_def)
  have d: "extract_candidate_facts B True Unparsable flag = Inr sentinel_facts"
    by (simp add: extract_candidate_facts_def try_extract_def)
  have e: "isl (try_extract B (Parsed v)) \<longrightarrow>
        extract_candidate_facts B True (Parsed v) flag = Inr sentinel_facts"
    by (cases "try_extract B (Parsed v)") (simp_all add: extract_candidate_facts_def)
  have f: "(case extract_candidate_facts B available reply flag of
        Inl e \<Rightarrow> e = AIServiceUnavailableError \<and> \<not> available \<and> flag
      | Inr data \<Rightarrow>
          data = sentinel_facts
          \<or> (\<exists>d. available \<and> reply = Parsed (PDict d) \<and> sanitize B d = Inr data))"
  proof (cases available)
    case False
    then show ?thesis by (simp add: extract_candidate_facts_def)
  next
    case True
    show ?thesis
    proof (cases "try_extract B reply")
      case (Inl err)
      with True show ?thesis by (simp add: extract_candidate_facts_def)
    next
      case (Inr data)
      then have "\<exists>d. reply = Parsed (PDict d) \<and> sanitize B d = Inr data"
        by (auto simp: try_extract_def split: ai_reply.splits pyval.splits)
      with True Inr show ?thesis by (simp add: extract_candidate_facts_def)
    qed
  qed
  from a b c d e f show ?thesis by blast
qed

theorem extraction_failure_modes_witness:
  "isl (try_extract strict_builtins (Parsed half_bad_payload))
   \<and> extract_candidate_facts strict_builtins True (Parsed half_bad_payload) True
       = Inr sentinel_facts
   \<and> extract_candidate_facts strict_builtins False (Parsed half_bad_payload) True
       = Inl AIServiceUnavailableError"
proof -
  have h: "isl (try_extract strict_builtins (Parsed half_bad_payload))" by code_simp
  show ?thesis
    using h extraction_failure_modes [where B = strict_builtins and v = half_bad_payload
        and flag = True and reply = "Parsed half_bad_payload" and available = True]
    by simp
qed

text \<open>The claim as first stated lets the flag decide in every failure. With a model
  available and the flag set, an unparsable payload and a failed call give the
  sentinel facts and no error.\<close>

theorem unparsable_payload_not_raised_counterexample:
  "extract_candidate_facts strict_builtins True Unparsable True = Inr sentinel_facts
   \<and> extract_candidate_facts strict_builtins True CallFailed True = Inr sentinel_facts"
  by code_simp

end
